theory Spec2Isabelle
  imports Main "HOL-Library.Sublist"
begin

section \<open>JavaScript strings and values\<close>

text \<open>
  Strings are character lists, and \<open>includes_str s q\<close> is \<open>s.includes(q)\<close>: \<open>q\<close>
  occurs in \<open>s\<close> as a contiguous substring. The methods \<open>toLowerCase\<close> and \<open>trim\<close> of
  the platform are not code of the script: the functions that call them take them as
  parameters. \<open>ascii_lower\<close> and \<open>ascii_trim\<close> are what the two methods do on strings of
  ASCII characters (the letters A to Z become a to z; tab, line feed, vertical tab, form
  feed, carriage return and space are removed at both ends), and are used on such strings
  only.

  A property that may be \<open>undefined\<close> is an option; \<open>x || d\<close> is written out by
  the functions \<open>or_empty\<close>, \<open>or_nil\<close>, \<open>or_zero\<close>, and the truth value of a
  property by \<open>truthy_str\<close> and \<open>truthy_flag\<close>.
\<close>

definition ascii_lower_char :: "char \<Rightarrow> char" where
  "ascii_lower_char c =
     (let n = (of_char c :: nat) in if 65 \<le> n \<and> n \<le> 90 then char_of (n + 32) else c)"

definition ascii_lower :: "string \<Rightarrow> string" where
  "ascii_lower s = map ascii_lower_char s"

definition ascii_space :: "char \<Rightarrow> bool" where
  "ascii_space c = ((of_char c :: nat) \<in> {9, 10, 11, 12, 13, 32})"

definition ascii_trim :: "string \<Rightarrow> string" where
  "ascii_trim s = rev (dropWhile ascii_space (rev (dropWhile ascii_space s)))"

fun includes_str :: "string \<Rightarrow> string \<Rightarrow> bool" where
  "includes_str [] q = (q = [])"
| "includes_str (c # cs) q = (prefix q (c # cs) \<or> includes_str cs q)"

definition or_empty :: "string option \<Rightarrow> string" where
  "or_empty v = (case v of None \<Rightarrow> [] | Some s \<Rightarrow> s)"

definition or_nil :: "string list option \<Rightarrow> string list" where
  "or_nil v = (case v of None \<Rightarrow> [] | Some ts \<Rightarrow> ts)"

definition or_zero :: "int option \<Rightarrow> int" where
  "or_zero v = (case v of None \<Rightarrow> 0 | Some n \<Rightarrow> n)"

definition truthy_str :: "string option \<Rightarrow> bool" where
  "truthy_str v = (case v of None \<Rightarrow> False | Some s \<Rightarrow> s \<noteq> [])"

definition truthy_flag :: "bool option \<Rightarrow> bool" where
  "truthy_flag v = (case v of None \<Rightarrow> False | Some b \<Rightarrow> b)"


section \<open>Numbers\<close>

text \<open>
  A likes count is a JavaScript number, a double. The model has the doubles that are
  integers: an integer \<open>n\<close> stands for the double of that value. The sum of two doubles
  is the exact sum rounded to the nearest double, a tie going to the one with the even
  significand. Up to \<open>2^53 = 9007199254740992\<close> in magnitude every integer is a double;
  from there on the doubles are the multiples of \<open>ulp\<close>, the power of two that leaves 53
  bits. (Adding 1 or -1 to a finite double never reaches infinity.)
\<close>

function ulp :: "int \<Rightarrow> int" where
  "ulp x = (if x < 9007199254740992 then 1 else 2 * ulp (x div 2))"
  by pat_completeness auto
termination
  by (relation "measure nat") auto

definition round_even :: "int \<Rightarrow> int \<Rightarrow> int" where
  "round_even x e =
     (let q = x div e; r = x mod e
      in if 2 * r < e then q * e
         else if e < 2 * r then (q + 1) * e
         else if even q then q * e else (q + 1) * e)"

definition to_double :: "int \<Rightarrow> int" where
  "to_double x = (if x < 0 then - round_even (- x) (ulp (- x)) else round_even x (ulp x))"

definition number_add :: "int \<Rightarrow> int \<Rightarrow> int" where
  "number_add a b = to_double (a + b)"

text \<open>\<open>Number.isSafeInteger\<close>: the magnitude is at most \<open>2^53 - 1\<close>.\<close>

definition isSafeInteger :: "int \<Rightarrow> bool" where
  "isSafeInteger n = (\<bar>n\<bar> < 9007199254740992)"


section \<open>Posts and blogs: the like operation\<close>

text \<open>
  A post of \<open>script.js\<close> has the properties id, content, date, likes and liked; the
  seed posts are created without \<open>liked\<close>, so it may be undefined. A blog of the later
  version of the file has a title as well. \<open>saved\<close> is the value stored under the
  key \<open>portfolio-posts\<close> (\<open>portfolio-blogs\<close>) of the local storage, \<open>None\<close> while
  nothing was stored.
\<close>

record post =
  post_id :: int
  content :: string
  date :: string
  likes :: "int option"
  liked :: "bool option"

record blog = post +
  blog_title :: string

record 'e entries =
  items :: "'e list"
  saved :: "'e list option"

text \<open>
  \<open>p.liked = !p.liked; p.likes = (p.likes || 0) + (p.liked ? 1 : -1)\<close> on the
  entry that \<open>find\<close> returned, which is the first one with the id; the entry is
  changed in place, so the array keeps its order.
\<close>

definition toggle_like :: "'a post_scheme \<Rightarrow> 'a post_scheme" where
  "toggle_like p =
     (let l = \<not> truthy_flag (liked p)
      in p\<lparr>liked := Some l,
           likes := Some (number_add (or_zero (likes p)) (if l then 1 else - 1))\<rparr>)"

fun like_first :: "int \<Rightarrow> 'a post_scheme list \<Rightarrow> 'a post_scheme list" where
  "like_first i [] = []"
| "like_first i (x # xs) = (if post_id x = i then toggle_like x # xs else x # like_first i xs)"

definition likePost :: "int \<Rightarrow> post entries \<Rightarrow> post entries" where
  "likePost i s =
     (case find (\<lambda>x. post_id x = i) (items s) of
        None \<Rightarrow> s
      | Some p \<Rightarrow> (let ps = like_first i (items s) in s\<lparr>items := ps, saved := Some ps\<rparr>))"

text \<open>
  \<open>likeBlog\<close> then rewrites the like button of the blog modal when it shows this blog,
  which changes the text of the button and nothing of the state.
\<close>

definition likeBlog :: "int \<Rightarrow> blog entries \<Rightarrow> blog entries" where
  "likeBlog i s =
     (case find (\<lambda>x. post_id x = i) (items s) of
        None \<Rightarrow> s
      | Some b \<Rightarrow> (let bs = like_first i (items s) in s\<lparr>items := bs, saved := Some bs\<rparr>))"

text \<open>What the renderers read of an entry: \<open>p.likes || 0\<close> and the truth value of \<open>p.liked\<close>.\<close>

definition likes_count :: "'a post_scheme \<Rightarrow> int" where
  "likes_count p = or_zero (likes p)"

definition liked_flag :: "'a post_scheme \<Rightarrow> bool" where
  "liked_flag p = truthy_flag (liked p)"


section \<open>Projects: filter and search\<close>

record project =
  title :: "string option"
  description :: "string option"
  fullDescription :: "string option"
  tags :: "string list option"
  image :: "string option"
  github :: "string option"
  demo :: "string option"

record gallery =
  projects :: "project list"
  filteredProjects :: "project list"
  currentFilter :: string

definition demoProjects :: "project list" where
  "demoProjects =
     [\<lparr>title = Some ''Demo Shop'', description = Some ''Demo e-commerce site.'',
       fullDescription = Some ''Demo full description with features.'',
       tags = Some [''React'', ''Node.js''], image = Some ''data:image/svg+xml'',
       github = Some ''#'', demo = Some ''#''\<rparr>]"

text \<open>\<open>(p.tags || []).includes(tag)\<close>\<close>

definition has_tag :: "string \<Rightarrow> project \<Rightarrow> bool" where
  "has_tag tag p = (tag \<in> set (or_nil (tags p)))"

definition toggleFilter :: "string \<Rightarrow> gallery \<Rightarrow> gallery" where
  "toggleFilter tag g =
     (if currentFilter g = tag
      then g\<lparr>currentFilter := ''all'', filteredProjects := projects g\<rparr>
      else g\<lparr>currentFilter := tag, filteredProjects := filter (has_tag tag) (projects g)\<rparr>)"

text \<open>
  The predicate of the search filter, for the query \<open>q\<close> already lowercased and trimmed;
  \<open>toLowerCase\<close> is the method of the platform.
\<close>

definition matches :: "(string \<Rightarrow> string) \<Rightarrow> string \<Rightarrow> project \<Rightarrow> bool" where
  "matches toLowerCase q p =
     (includes_str (toLowerCase (or_empty (title p))) q
      \<or> includes_str (toLowerCase (or_empty (description p))) q
      \<or> list_ex (\<lambda>t. includes_str (toLowerCase t) q) (or_nil (tags p)))"

definition filter_pool :: "gallery \<Rightarrow> project list" where
  "filter_pool g =
     (if currentFilter g = ''all'' then projects g
      else filter (has_tag (currentFilter g)) (projects g))"

text \<open>
  The input listener that \<open>initProjectSearch\<close> installs, run on the value of the search
  field (\<open>None\<close> for a value that is not there, read as the empty string), with the
  methods \<open>toLowerCase\<close> and \<open>trim\<close> of the platform.
\<close>

definition searchInput ::
  "(string \<Rightarrow> string) \<Rightarrow> (string \<Rightarrow> string) \<Rightarrow> string option \<Rightarrow> gallery \<Rightarrow> gallery" where
  "searchInput toLowerCase trim v g =
     (let q = trim (toLowerCase (or_empty v))
      in g\<lparr>filteredProjects := filter (matches toLowerCase q) (filter_pool g)\<rparr>)"

text \<open>
  The search as the specification words it, for comparison: the projects of the pool
  whose title, description or some tag contains the lowercased, trimmed query.
\<close>

definition spec_matches :: "string \<Rightarrow> project \<Rightarrow> bool" where
  "spec_matches q p =
     (includes_str (or_empty (title p)) q
      \<or> includes_str (or_empty (description p)) q
      \<or> list_ex (\<lambda>t. includes_str t q) (or_nil (tags p)))"

definition spec_search ::
  "(string \<Rightarrow> string) \<Rightarrow> (string \<Rightarrow> string) \<Rightarrow> string option \<Rightarrow> gallery \<Rightarrow> project list" where
  "spec_search toLowerCase trim v g =
     filter (spec_matches (trim (toLowerCase (or_empty v)))) (filter_pool g)"


section \<open>The page: elements, dialog surfaces and focus\<close>

text \<open>
  The markup and the style sheet of the page are not part of the sources, so what the
  script reads of them is data of the model. An element has an identity and three facts:
  whether it matches \<open>.modal-close\<close>, whether it matches the selector of \<open>trapFocus\<close>
  (links with a target, buttons that are not disabled, text areas, inputs, selects,
  elements with a tab index other than -1), and whether it is an element that can take the
  focus (a disabled input matches the selector and cannot). Two elements are the same
  element when they are equal.

  A dialog surface is the container element of a modal: its \<open>aria-hidden\<close> attribute
  (\<open>None\<close> while the attribute is not set), its \<open>style.display\<close>, whether the style
  sheet hides it while its \<open>style.display\<close> is empty, its \<open>open\<close> attribute, its
  descendants in document order (those before the body element, those of the body element,
  which the script replaces on every open, and those after it; \<open>body\<close> is \<open>None\<close> when
  the body element is not in the document), its key-down listeners in the order of
  registration, its \<open>_removeTrap\<close> property (the handler that calling it would remove),
  and the element that was given the click listener for closing when the document was
  loaded.
\<close>

record elem =
  eid :: nat
  modal_close :: bool
  focusable_sel :: bool
  can_focus :: bool

record trap =
  first_el :: elem
  last_el :: elem

record surface =
  aria_hidden :: "string option"
  display :: string
  sheet_hides :: bool
  open_attr :: bool
  before_body :: "elem list"
  body :: "elem list option"
  after_body :: "elem list"
  listeners :: "trap list"
  removeTrap :: "trap option"
  close_listener :: "elem option"

datatype sid = ProjectModal | BlogModal

text \<open>
  The page: the two surfaces (\<open>None\<close> when \<open>getElementById\<close> finds no container),
  \<open>document.body.style.overflow\<close>, \<open>document.activeElement\<close>, the variable
  \<open>lastFocused\<close>, the attached elements outside the two containers, the supply of
  identities for elements that markup creates, the callbacks of \<open>setTimeout\<close> that have not
  run yet, \<open>state.blogs\<close>, \<open>state.currentBlogId\<close> and the result of \<open>isAdmin()\<close>.
\<close>

record page =
  modal :: "sid \<Rightarrow> surface option"
  overflow :: string
  activeElement :: "elem option"
  lastFocused :: "elem option"
  page_elems :: "elem list"
  next_id :: nat
  timers :: "sid list"
  blogs :: "blog list"
  currentBlogId :: "int option"
  isAdmin :: bool

record key_event =
  key :: string
  shiftKey :: bool

definition descendants :: "surface \<Rightarrow> elem list" where
  "descendants m =
     before_body m @ (case body m of None \<Rightarrow> [] | Some cs \<Rightarrow> cs) @ after_body m"

definition inside :: "page \<Rightarrow> sid \<Rightarrow> elem \<Rightarrow> bool" where
  "inside p s e = (case modal p s of None \<Rightarrow> False | Some m \<Rightarrow> e \<in> set (descendants m))"

definition attached :: "page \<Rightarrow> elem \<Rightarrow> bool" where
  "attached p e = (e \<in> set (page_elems p) \<or> inside p ProjectModal e \<or> inside p BlogModal e)"

text \<open>
  A container and its descendants are rendered unless its \<open>style.display\<close> is \<open>none\<close>,
  or is empty and the style sheet hides the container.
\<close>

definition rendered :: "surface \<Rightarrow> bool" where
  "rendered m = (display m \<noteq> ''none'' \<and> (display m \<noteq> [] \<or> \<not> sheet_hides m))"

definition shown_inside :: "page \<Rightarrow> sid \<Rightarrow> elem \<Rightarrow> bool" where
  "shown_inside p s e =
     (case modal p s of None \<Rightarrow> False | Some m \<Rightarrow> rendered m \<and> e \<in> set (descendants m))"

text \<open>
  \<open>el.focus()\<close> makes the element the active element when it can take the focus now: it
  is an element that can take the focus, and it is in the document outside the two
  containers or inside a container that is rendered. Otherwise nothing happens, and
  nothing is thrown. Only the focus changes that the script makes are part of the model:
  what the browser does with the focus by itself (the default action of Tab, an element
  that is hidden or removed while it has the focus) is not.
\<close>

definition takes_focus :: "page \<Rightarrow> elem \<Rightarrow> bool" where
  "takes_focus p e =
     (can_focus e \<and>
      (e \<in> set (page_elems p) \<or> shown_inside p ProjectModal e \<or> shown_inside p BlogModal e))"

definition focus :: "elem \<Rightarrow> page \<Rightarrow> page" where
  "focus e p = (if takes_focus p e then p\<lparr>activeElement := Some e\<rparr> else p)"

definition update_modal :: "sid \<Rightarrow> (surface \<Rightarrow> surface) \<Rightarrow> page \<Rightarrow> page" where
  "update_modal s f p = p\<lparr>modal := (modal p)(s := map_option f (modal p s))\<rparr>"

text \<open>
  Markup assigned to \<open>innerHTML\<close> creates new elements: \<open>k\<close> of them, numbered from
  \<open>n\<close>. Those that the script writes are links with a target and buttons that are not
  disabled.
\<close>

definition new_controls :: "nat \<Rightarrow> nat \<Rightarrow> elem list" where
  "new_controls k n =
     map (\<lambda>i. \<lparr>eid = i, modal_close = False, focusable_sel = True, can_focus = True\<rparr>)
       [n ..< n + k]"

text \<open>
  Of the markup that \<open>openProjectModal\<close> writes, the elements that a selector of the script
  can match are the two links, each present when the project has the property. The markup
  of \<open>openBlogModal\<close> has the like button and, for the admin, the edit and delete buttons.
\<close>

definition project_controls :: "project \<Rightarrow> nat" where
  "project_controls pr =
     (if truthy_str (github pr) then 1 else 0) + (if truthy_str (demo pr) then 1 else 0)"

definition blog_controls :: "bool \<Rightarrow> nat" where
  "blog_controls adm = 1 + (if adm then 2 else 0)"


section \<open>The focus trap\<close>

definition trapFocus :: "surface \<Rightarrow> surface" where
  "trapFocus container =
     (let focusable = filter focusable_sel (descendants container)
      in if focusable = [] then container
         else (let keyHandler = \<lparr>first_el = hd focusable, last_el = last focusable\<rparr>
               in container\<lparr>listeners := listeners container @ [keyHandler],
                            removeTrap := Some keyHandler\<rparr>))"

text \<open>
  The handler that \<open>trapFocus\<close> registers, with the \<open>first\<close> and \<open>last\<close> it closed
  over. The Boolean of the result says whether \<open>preventDefault\<close> was called.
\<close>

definition keyHandler :: "trap \<Rightarrow> key_event \<Rightarrow> page \<Rightarrow> bool \<times> page" where
  "keyHandler h e p =
     (if key e \<noteq> ''Tab'' then (False, p)
      else if shiftKey e \<and> activeElement p = Some (first_el h) then (True, focus (last_el h) p)
      else if \<not> shiftKey e \<and> activeElement p = Some (last_el h) then (True, focus (first_el h) p)
      else (False, p))"

text \<open>
  A key-down event on a container runs its listeners in the order of registration. The
  number counts the handlers that took a wrap branch (and called \<open>preventDefault\<close>).
\<close>

fun run_listeners :: "trap list \<Rightarrow> key_event \<Rightarrow> page \<Rightarrow> nat \<times> page" where
  "run_listeners [] e p = (0, p)"
| "run_listeners (h # hs) e p =
     (case keyHandler h e p of (b, p1) \<Rightarrow>
        (case run_listeners hs e p1 of (n, p2) \<Rightarrow> ((if b then 1 else 0) + n, p2)))"

definition container_keydown :: "sid \<Rightarrow> key_event \<Rightarrow> page \<Rightarrow> nat \<times> page" where
  "container_keydown s e p =
     (case modal p s of None \<Rightarrow> (0, p) | Some m \<Rightarrow> run_listeners (listeners m) e p)"


section \<open>Opening and closing\<close>

definition openProjectModal :: "project \<Rightarrow> page \<Rightarrow> page" where
  "openProjectModal pr p =
     (case modal p ProjectModal of
        None \<Rightarrow> p
      | Some m \<Rightarrow>
          (case body m of
             None \<Rightarrow> p
           | Some old \<Rightarrow>
               (let cs = new_controls (project_controls pr) (next_id p);
                    m1 = m\<lparr>body := Some cs, aria_hidden := Some ''false'', display := ''flex''\<rparr>;
                    p1 = p\<lparr>lastFocused := activeElement p,
                           modal := (modal p)(ProjectModal \<mapsto> m1),
                           next_id := next_id p + length cs,
                           timers := timers p @ [ProjectModal],
                           overflow := ''hidden''\<rparr>;
                    p2 = (case find modal_close (descendants m1) of
                            None \<Rightarrow> p1
                          | Some closeBtn \<Rightarrow> focus closeBtn p1)
                in update_modal ProjectModal trapFocus p2)))"

definition close_surface :: "surface \<Rightarrow> surface" where
  "close_surface m = m\<lparr>open_attr := False, aria_hidden := Some ''true'', display := ''none''\<rparr>"

definition restore_focus :: "page \<Rightarrow> page" where
  "restore_focus p = (case lastFocused p of None \<Rightarrow> p | Some e \<Rightarrow> focus e p)"

definition closeProjectModal :: "page \<Rightarrow> page" where
  "closeProjectModal p =
     (case modal p ProjectModal of
        None \<Rightarrow> p
      | Some m \<Rightarrow>
          restore_focus (p\<lparr>modal := (modal p)(ProjectModal \<mapsto> close_surface m), overflow := []\<rparr>))"

definition openBlogModal :: "int \<Rightarrow> page \<Rightarrow> page" where
  "openBlogModal i p =
     (case modal p BlogModal of
        None \<Rightarrow> p
      | Some m \<Rightarrow>
          (case body m of
             None \<Rightarrow> p
           | Some old \<Rightarrow>
               (case find (\<lambda>x. post_id x = i) (blogs p) of
                  None \<Rightarrow> p
                | Some b \<Rightarrow>
                    (let cs = new_controls (blog_controls (isAdmin p)) (next_id p);
                         m1 = m\<lparr>body := Some cs, aria_hidden := Some ''false'', display := ''flex''\<rparr>;
                         p1 = p\<lparr>currentBlogId := Some i,
                                lastFocused := activeElement p,
                                modal := (modal p)(BlogModal \<mapsto> m1),
                                next_id := next_id p + length cs,
                                timers := timers p @ [BlogModal],
                                overflow := ''hidden''\<rparr>;
                         p2 = (case find modal_close (descendants m1) of
                                 None \<Rightarrow> p1
                               | Some closeBtn \<Rightarrow> focus closeBtn p1)
                     in update_modal BlogModal trapFocus p2))))"

definition closeBlogModal :: "page \<Rightarrow> page" where
  "closeBlogModal p =
     (case modal p BlogModal of
        None \<Rightarrow> p
      | Some m \<Rightarrow>
          restore_focus (p\<lparr>currentBlogId := None,
                           modal := (modal p)(BlogModal \<mapsto> close_surface m), overflow := []\<rparr>))"

text \<open>The callback of \<open>setTimeout\<close> that runs next: \<open>modal.setAttribute('open', '')\<close>.\<close>

definition timer_fires :: "page \<Rightarrow> page" where
  "timer_fires p =
     (case timers p of
        [] \<Rightarrow> p
      | s # ts \<Rightarrow> update_modal s (\<lambda>m. m\<lparr>open_attr := True\<rparr>) (p\<lparr>timers := ts\<rparr>))"


section \<open>The listeners of the document\<close>

text \<open>
  The target of a click is one of the two containers themselves (the backdrop) or another
  element. When the document has loaded, the first \<open>.modal-close\<close> element of each
  container is given a click listener that closes its surface (\<open>script.js\<close>, which has
  the project modal only, takes the first such element of the document).
\<close>

datatype node = ModalEl sid | El elem

definition domContentLoaded :: "page \<Rightarrow> page" where
  "domContentLoaded p =
     (let reg = (\<lambda>m. m\<lparr>close_listener := find modal_close (descendants m)\<rparr>)
      in update_modal BlogModal reg (update_modal ProjectModal reg p))"

definition has_close_listener :: "page \<Rightarrow> sid \<Rightarrow> node \<Rightarrow> bool" where
  "has_close_listener p s t =
     (case modal p s of
        None \<Rightarrow> False
      | Some m \<Rightarrow> (case t of ModalEl x \<Rightarrow> False | El e \<Rightarrow> close_listener m = Some e))"

definition click_close_button :: "node \<Rightarrow> page \<Rightarrow> page" where
  "click_close_button t p =
     (if has_close_listener p ProjectModal t then closeProjectModal p
      else if has_close_listener p BlogModal t then closeBlogModal p
      else p)"

definition click_project_backdrop :: "node \<Rightarrow> page \<Rightarrow> page" where
  "click_project_backdrop t p =
     (case modal p ProjectModal of
        None \<Rightarrow> p
      | Some m \<Rightarrow> if t = ModalEl ProjectModal then closeProjectModal p else p)"

definition click_blog_backdrop :: "node \<Rightarrow> page \<Rightarrow> page" where
  "click_blog_backdrop t p =
     (if modal p BlogModal \<noteq> None \<and> t = ModalEl BlogModal then closeBlogModal p else p)"

text \<open>A click runs the listener of its target first, then the two listeners of the document.\<close>

definition click :: "node \<Rightarrow> page \<Rightarrow> page" where
  "click t p = click_blog_backdrop t (click_project_backdrop t (click_close_button t p))"

definition is_open :: "page \<Rightarrow> sid \<Rightarrow> bool" where
  "is_open p s = (case modal p s of None \<Rightarrow> False | Some m \<Rightarrow> aria_hidden m = Some ''false'')"


definition document_keydown :: "key_event \<Rightarrow> page \<Rightarrow> page" where
  "document_keydown e p =
     (if key e = ''Escape''
      then (let p1 = (if is_open p ProjectModal then closeProjectModal p else p)
            in if is_open p1 BlogModal then closeBlogModal p1 else p1)
      else p)"

text \<open>
  A key press goes to the active element: the listeners of the container that holds it run,
  then the listener of the document.
\<close>

definition keydown :: "key_event \<Rightarrow> page \<Rightarrow> nat \<times> page" where
  "keydown e p =
     (let in_project = (case activeElement p of None \<Rightarrow> False | Some a \<Rightarrow> inside p ProjectModal a);
          in_blog = (case activeElement p of None \<Rightarrow> False | Some a \<Rightarrow> inside p BlogModal a)
      in case (if in_project then container_keydown ProjectModal e p else (0, p)) of (n1, p1) \<Rightarrow>
         (case (if in_blog then container_keydown BlogModal e p1 else (0, p1)) of (n2, p2) \<Rightarrow>
            (n1 + n2, document_keydown e p2)))"


section \<open>User events\<close>

datatype event = ProjectCard project | BlogCard int | EscapeKey | Click node | TimerFires

definition escape :: key_event where
  "escape = \<lparr>key = ''Escape'', shiftKey = False\<rparr>"

fun step :: "event \<Rightarrow> page \<Rightarrow> page" where
  "step (ProjectCard pr) p = openProjectModal pr p"
| "step (BlogCard i) p = openBlogModal i p"
| "step EscapeKey p = snd (keydown escape p)"
| "step (Click t) p = click t p"
| "step TimerFires p = timer_fires p"

fun run :: "event list \<Rightarrow> page \<Rightarrow> page" where
  "run [] p = p"
| "run (e # es) p = run es (step e p)"

definition at_most_one_open :: "page \<Rightarrow> bool" where
  "at_most_one_open p = (\<not> (is_open p ProjectModal \<and> is_open p BlogModal))"

text \<open>
  A card may be activated while the other surface is not open (the surface of the card
  itself may be open: \<open>editBlog\<close> opens the blog modal again while it shows the blog).
\<close>

fun card_allowed :: "event \<Rightarrow> page \<Rightarrow> bool" where
  "card_allowed (ProjectCard pr) p = (\<not> is_open p BlogModal)"
| "card_allowed (BlogCard i) p = (\<not> is_open p ProjectModal)"
| "card_allowed e p = True"

fun cards_when_other_closed :: "event list \<Rightarrow> page \<Rightarrow> bool" where
  "cards_when_other_closed [] p = True"
| "cards_when_other_closed (e # es) p =
     (card_allowed e p \<and> cards_when_other_closed es (step e p))"


section \<open>Example pages\<close>

text \<open>
  A control that can take the focus, a close button, and a disabled input (which matches
  the selector of \<open>trapFocus\<close> and cannot take the focus).
\<close>

definition control :: "nat \<Rightarrow> elem" where
  "control n = \<lparr>eid = n, modal_close = False, focusable_sel = True, can_focus = True\<rparr>"

definition close_button :: "nat \<Rightarrow> elem" where
  "close_button n = \<lparr>eid = n, modal_close = True, focusable_sel = True, can_focus = True\<rparr>"

definition disabled_input :: "nat \<Rightarrow> elem" where
  "disabled_input n = \<lparr>eid = n, modal_close = False, focusable_sel = True, can_focus = False\<rparr>"

text \<open>A closed dialog that the style sheet hides, with the given elements around its body.\<close>

definition plain_surface :: "elem list \<Rightarrow> elem list \<Rightarrow> surface" where
  "plain_surface es fs =
     \<lparr>aria_hidden = Some ''true'', display = [], sheet_hides = True, open_attr = False,
      before_body = es, body = Some [], after_body = fs, listeners = [], removeTrap = None,
      close_listener = None\<rparr>"

definition closed_surface :: "nat \<Rightarrow> surface" where
  "closed_surface b = plain_surface [close_button b] []"

definition seed_blog :: blog where
  "seed_blog =
     \<lparr>post_id = 1, content = ''Just learned CSS Grid'', date = ''2024-01-01'',
      likes = Some 5, liked = Some False, blog_title = ''Why I Love CSS Grid''\<rparr>"

text \<open>
  A page with both dialogs, a project card (element 10) that has the focus and a blog card
  (element 11), at the moment the document has loaded.
\<close>

definition page_of :: "(sid \<Rightarrow> surface) \<Rightarrow> page" where
  "page_of f =
     domContentLoaded
       \<lparr>modal = (\<lambda>s. Some (f s)), overflow = [], activeElement = Some (control 10),
        lastFocused = None, page_elems = [control 10, control 11], next_id = 100, timers = [],
        blogs = [seed_blog], currentBlogId = None, isAdmin = True\<rparr>"

text \<open>Each dialog has a close button before its body.\<close>

definition example_page :: page where
  "example_page = page_of (\<lambda>s. closed_surface (case s of ProjectModal \<Rightarrow> 1 | BlogModal \<Rightarrow> 2))"

text \<open>The dialogs have no close button.\<close>

definition bare_page :: page where
  "bare_page = page_of (\<lambda>s. plain_surface [] [])"

text \<open>
  The project dialog has, after its body, a button (element 5) and a disabled input
  (element 6).
\<close>

definition form_page :: page where
  "form_page =
     page_of (\<lambda>s. case s of
                ProjectModal \<Rightarrow> plain_surface [close_button 1] [control 5, disabled_input 6]
              | BlogModal \<Rightarrow> closed_surface 2)"

text \<open>The project dialog of that page, open, with the focus on its button 5.\<close>

definition form_page_open :: page where
  "form_page_open =
     (openProjectModal (hd demoProjects) form_page)\<lparr>activeElement := Some (control 5)\<rparr>"


section \<open>Notions used by the properties\<close>

text \<open>
  \<open>restored p\<close> is the active element after \<open>if (lastFocused) lastFocused.focus()\<close>.
  \<open>opened m cs\<close> is the container as an open call shows it, with the new descendants
  \<open>cs\<close> of its body, and \<open>close_control m\<close> is the first \<open>.modal-close\<close> element
  among the descendants that the markup of the page gives the container.
\<close>

definition restored :: "page \<Rightarrow> elem option" where
  "restored p =
     (case lastFocused p of
        None \<Rightarrow> activeElement p
      | Some e \<Rightarrow> if takes_focus p e then Some e else activeElement p)"

definition opened :: "surface \<Rightarrow> elem list \<Rightarrow> surface" where
  "opened m cs = m\<lparr>body := Some cs, aria_hidden := Some ''false'', display := ''flex''\<rparr>"

definition close_control :: "surface \<Rightarrow> elem option" where
  "close_control m = find modal_close (before_body m @ after_body m)"

text \<open>What a close call writes before it touches the focus.\<close>

definition hide_project :: "page \<Rightarrow> page" where
  "hide_project p = (update_modal ProjectModal close_surface p)\<lparr>overflow := []\<rparr>"

definition hide_blog :: "page \<Rightarrow> page" where
  "hide_blog p =
     (update_modal BlogModal close_surface (p\<lparr>currentBlogId := None\<rparr>))\<lparr>overflow := []\<rparr>"

definition close_modal :: "sid \<Rightarrow> page \<Rightarrow> page" where
  "close_modal s p =
     (case s of ProjectModal \<Rightarrow> closeProjectModal p | BlogModal \<Rightarrow> closeBlogModal p)"


text \<open>
  What can be observed of a surface after it was dismissed: the scroll lock of the page,
  the \<open>aria-hidden\<close> marking and the display of the container, and the focus.
\<close>

definition observable ::
  "sid \<Rightarrow> page \<Rightarrow> string \<times> string option option \<times> string option \<times> elem option" where
  "observable s p =
     (overflow p, map_option aria_hidden (modal p s), map_option display (modal p s),
      activeElement p)"

text \<open>
  The focus after a close (state \<open>r\<close>) is back on the element \<open>before\<close> that had it
  before the open call when that element can take the focus, and is where the open call
  left it (state \<open>q\<close>) when it cannot, or when no element had the focus.
\<close>

definition focus_restored :: "elem option \<Rightarrow> page \<Rightarrow> page \<Rightarrow> bool" where
  "focus_restored before q r =
     (case before of
        None \<Rightarrow> activeElement r = activeElement q
      | Some e \<Rightarrow> if takes_focus r e then activeElement r = Some e
                  else activeElement r = activeElement q)"

text \<open>The same with the condition of the specification: the element is attached.\<close>

definition spec_focus_restored :: "elem option \<Rightarrow> page \<Rightarrow> page \<Rightarrow> bool" where
  "spec_focus_restored before q r =
     (case before of
        None \<Rightarrow> activeElement r = activeElement q
      | Some e \<Rightarrow> if attached r e then activeElement r = Some e
                  else activeElement r = activeElement q)"

definition is_substring :: "string \<Rightarrow> string \<Rightarrow> bool" where
  "is_substring q s = (\<exists>a b. s = a @ q @ b)"

text \<open>
  Example data: the demo gallery, a seed post of \<open>script.js\<close>, a post made by
  \<open>addPost\<close>, and a post whose stored likes count is \<open>2^53\<close>.
\<close>

definition demo_gallery :: gallery where
  "demo_gallery =
     \<lparr>projects = demoProjects, filteredProjects = demoProjects, currentFilter = ''all''\<rparr>"

definition seed_post :: post where
  "seed_post =
     \<lparr>post_id = 1, content = ''Just learned CSS Grid'', date = ''2024-01-01'',
      likes = Some 5, liked = None\<rparr>"

definition new_post :: post where
  "new_post =
     \<lparr>post_id = 2, content = ''Hello'', date = ''2024-01-02'', likes = Some 0,
      liked = Some False\<rparr>"

definition big_post :: post where
  "big_post =
     \<lparr>post_id = 3, content = ''Popular'', date = ''2024-01-03'',
      likes = Some 9007199254740992, liked = Some False\<rparr>"

definition seeded_posts :: "post entries" where
  "seeded_posts = \<lparr>items = [seed_post, new_post], saved = None\<rparr>"

definition made_posts :: "post entries" where
  "made_posts = \<lparr>items = [new_post], saved = None\<rparr>"

definition big_posts :: "post entries" where
  "big_posts = \<lparr>items = [big_post], saved = None\<rparr>"

definition demo_blogs :: "blog entries" where
  "demo_blogs = \<lparr>items = [seed_blog], saved = None\<rparr>"

definition tab :: "bool \<Rightarrow> key_event" where
  "tab sh = \<lparr>key = ''Tab'', shiftKey = sh\<rparr>"

definition demo_events :: "event list" where
  "demo_events =
     [ProjectCard (hd demoProjects), Click (El (close_button 1)), BlogCard 1, BlogCard 1,
      Click (ModalEl BlogModal), TimerFires, ProjectCard (hd demoProjects), EscapeKey]"

text \<open>
  The container of the example page, the project dialog as shown before its trap is set,
  and the state of the example page with both dialogs open.
\<close>

definition example_surface :: "nat \<Rightarrow> surface" where
  "example_surface b = (closed_surface b)\<lparr>close_listener := Some (close_button b)\<rparr>"



text \<open>The identities of the handlers of a container, first and last element of each.\<close>

definition trap_ids :: "surface \<Rightarrow> (nat \<times> nat) list" where
  "trap_ids m = map (\<lambda>h. (eid (first_el h), eid (last_el h))) (listeners m)"


section \<open>Facts about the operations\<close>

subsection \<open>Focus and closing\<close>

lemma focus_keeps [simp]:
  "modal (focus e p) = modal p" "overflow (focus e p) = overflow p"
  "lastFocused (focus e p) = lastFocused p" "page_elems (focus e p) = page_elems p"
  "timers (focus e p) = timers p" "blogs (focus e p) = blogs p"
  "currentBlogId (focus e p) = currentBlogId p" "next_id (focus e p) = next_id p"
  "isAdmin (focus e p) = isAdmin p"
  by (simp_all add: focus_def)

lemma takes_focus_cong:
  "page_elems q = page_elems p \<Longrightarrow> modal q = modal p \<Longrightarrow> takes_focus q = takes_focus p"
  by (simp add: takes_focus_def shown_inside_def fun_eq_iff)

lemma attached_cong:
  "page_elems q = page_elems p \<Longrightarrow> modal q = modal p \<Longrightarrow> attached q = attached p"
  by (simp add: attached_def inside_def fun_eq_iff)

lemma takes_focus_focus [simp]: "takes_focus (focus e p) = takes_focus p"
  by (rule takes_focus_cong) simp_all

lemma attached_focus [simp]: "attached (focus e p) = attached p"
  by (rule attached_cong) simp_all

lemma takes_focus_active [simp]: "takes_focus (p\<lparr>activeElement := a\<rparr>) = takes_focus p"
  by (rule takes_focus_cong) simp_all

lemma activeElement_focus:
  "activeElement (focus e p) = (if takes_focus p e then Some e else activeElement p)"
  by (simp add: focus_def)

lemma restore_focus_keeps [simp]:
  "modal (restore_focus p) = modal p" "overflow (restore_focus p) = overflow p"
  "lastFocused (restore_focus p) = lastFocused p" "page_elems (restore_focus p) = page_elems p"
  "timers (restore_focus p) = timers p" "blogs (restore_focus p) = blogs p"
  "currentBlogId (restore_focus p) = currentBlogId p" "next_id (restore_focus p) = next_id p"
  "isAdmin (restore_focus p) = isAdmin p"
  by (simp_all add: restore_focus_def split: option.splits)

lemma restore_focus_eq: "restore_focus p = p\<lparr>activeElement := restored p\<rparr>"
  by (simp add: restore_focus_def restored_def focus_def split: option.splits)

lemma restored_idem [simp]: "restored (p\<lparr>activeElement := restored p\<rparr>) = restored p"
  by (simp add: restored_def split: option.splits)

lemma restore_focus_idem [simp]: "restore_focus (restore_focus p) = restore_focus p"
  by (simp add: restore_focus_eq)

lemma descendants_close_surface [simp]: "descendants (close_surface m) = descendants m"
  by (simp add: descendants_def close_surface_def)

lemma close_surface_idem [simp]: "close_surface (close_surface m) = close_surface m"
  by (simp add: close_surface_def)

lemma update_modal_keeps [simp]:
  "overflow (update_modal s f p) = overflow p" "activeElement (update_modal s f p) = activeElement p"
  "lastFocused (update_modal s f p) = lastFocused p" "page_elems (update_modal s f p) = page_elems p"
  "timers (update_modal s f p) = timers p" "blogs (update_modal s f p) = blogs p"
  "currentBlogId (update_modal s f p) = currentBlogId p" "next_id (update_modal s f p) = next_id p"
  "isAdmin (update_modal s f p) = isAdmin p"
  by (simp_all add: update_modal_def)

lemma modal_update_modal [simp]:
  "modal (update_modal s f p) s' = (if s' = s then map_option f (modal p s) else modal p s')"
  by (simp add: update_modal_def)

lemma closeProjectModal_eq:
  "closeProjectModal p =
     (if modal p ProjectModal = None then p else restore_focus (hide_project p))"
  by (auto simp: closeProjectModal_def hide_project_def update_modal_def split: option.splits)

lemma closeBlogModal_eq:
  "closeBlogModal p = (if modal p BlogModal = None then p else restore_focus (hide_blog p))"
  by (auto simp: closeBlogModal_def hide_blog_def update_modal_def split: option.splits)

lemma hide_keeps [simp]:
  "lastFocused (hide_project p) = lastFocused p" "lastFocused (hide_blog p) = lastFocused p"
  "activeElement (hide_project p) = activeElement p" "activeElement (hide_blog p) = activeElement p"
  "page_elems (hide_project p) = page_elems p" "page_elems (hide_blog p) = page_elems p"
  "overflow (hide_project p) = []" "overflow (hide_blog p) = []"
  by (simp_all add: hide_project_def hide_blog_def)

lemma modal_hide [simp]:
  "modal (hide_project p) s =
     (if s = ProjectModal then map_option close_surface (modal p s) else modal p s)"
  "modal (hide_blog p) s =
     (if s = BlogModal then map_option close_surface (modal p s) else modal p s)"
  by (simp_all add: hide_project_def hide_blog_def)

lemma hide_project_idem:
  "hide_project (hide_project p\<lparr>activeElement := a\<rparr>) = hide_project p\<lparr>activeElement := a\<rparr>"
  by (simp add: hide_project_def update_modal_def option.map_comp comp_def)

lemma hide_blog_idem:
  "hide_blog (hide_blog p\<lparr>activeElement := a\<rparr>) = hide_blog p\<lparr>activeElement := a\<rparr>"
  by (simp add: hide_blog_def update_modal_def option.map_comp comp_def)

lemma closeProjectModal_idem: "closeProjectModal (closeProjectModal p) = closeProjectModal p"
proof (cases "modal p ProjectModal")
  case None
  then show ?thesis by (simp add: closeProjectModal_eq)
next
  case (Some m)
  then have "modal (restore_focus (hide_project p)) ProjectModal \<noteq> None" by simp
  with Some show ?thesis
    by (simp add: closeProjectModal_eq) (simp add: restore_focus_eq hide_project_idem)
qed

lemma closeBlogModal_idem: "closeBlogModal (closeBlogModal p) = closeBlogModal p"
proof (cases "modal p BlogModal")
  case None
  then show ?thesis by (simp add: closeBlogModal_eq)
next
  case (Some m)
  then have "modal (restore_focus (hide_blog p)) BlogModal \<noteq> None" by simp
  with Some show ?thesis
    by (simp add: closeBlogModal_eq) (simp add: restore_focus_eq hide_blog_idem)
qed

lemma lastFocused_close [simp]:
  "lastFocused (closeProjectModal p) = lastFocused p" "lastFocused (closeBlogModal p) = lastFocused p"
  by (simp_all add: closeProjectModal_eq closeBlogModal_eq)

lemma activeElement_closeProjectModal:
  "activeElement (closeProjectModal p) =
     (if modal p ProjectModal = None then activeElement p else restored (hide_project p))"
  by (simp add: closeProjectModal_eq restore_focus_eq)

lemma activeElement_closeBlogModal:
  "activeElement (closeBlogModal p) =
     (if modal p BlogModal = None then activeElement p else restored (hide_blog p))"
  by (simp add: closeBlogModal_eq restore_focus_eq)

lemma takes_focus_closeProjectModal:
  "modal p ProjectModal \<noteq> None \<Longrightarrow> takes_focus (closeProjectModal p) = takes_focus (hide_project p)"
  by (auto simp: closeProjectModal_eq restore_focus_eq)

lemma takes_focus_closeBlogModal:
  "modal p BlogModal \<noteq> None \<Longrightarrow> takes_focus (closeBlogModal p) = takes_focus (hide_blog p)"
  by (auto simp: closeBlogModal_eq restore_focus_eq)

lemma modal_closeProjectModal:
  "modal (closeProjectModal p) s =
     (if s = ProjectModal then map_option close_surface (modal p s) else modal p s)"
  by (auto simp: closeProjectModal_eq)

lemma modal_closeBlogModal:
  "modal (closeBlogModal p) s =
     (if s = BlogModal then map_option close_surface (modal p s) else modal p s)"
  by (auto simp: closeBlogModal_eq)

lemma is_open_closeProjectModal:
  "is_open (closeProjectModal p) s = (s \<noteq> ProjectModal \<and> is_open p s)"
  by (auto simp: is_open_def modal_closeProjectModal close_surface_def split: option.splits)

lemma is_open_closeBlogModal:
  "is_open (closeBlogModal p) s = (s \<noteq> BlogModal \<and> is_open p s)"
  by (auto simp: is_open_def modal_closeBlogModal close_surface_def split: option.splits)

lemma is_open_present: "is_open p s \<Longrightarrow> modal p s \<noteq> None"
  by (auto simp: is_open_def split: option.splits)

subsection \<open>Opening\<close>

lemma find_append_cases:
  "find P (xs @ ys) = (case find P xs of None \<Rightarrow> find P ys | Some x \<Rightarrow> Some x)"
  by (induction xs) auto

lemma find_new_controls [simp]: "find modal_close (new_controls k n) = None"
  by (simp add: new_controls_def find_None_iff)

lemma find_in_set: "find P xs = Some x \<Longrightarrow> x \<in> set xs \<and> P x"
  by (induction xs) (auto split: if_splits)

lemma find_close_opened:
  "find modal_close (descendants (opened m (new_controls k n))) = close_control m"
  by (simp add: descendants_def opened_def close_control_def find_append_cases split: option.splits)

lemma close_control_inside:
  assumes "close_control m = Some b"
  shows "b \<in> set (descendants (opened m cs))"
proof -
  from assms have "b \<in> set (before_body m @ after_body m)"
    unfolding close_control_def by (rule find_in_set [THEN conjunct1])
  then show ?thesis by (auto simp: descendants_def opened_def)
qed

lemma rendered_opened [simp]: "rendered (opened m cs)"
  by (simp add: rendered_def opened_def)

lemma close_control_takes_focus:
  assumes "close_control m = Some b" and "modal p s = Some (opened m cs)"
  shows "takes_focus p b = can_focus b"
  using close_control_inside [OF assms(1), of cs] assms(2)
  by (cases s) (auto simp: takes_focus_def shown_inside_def)

lemma activeElement_openProjectModal:
  assumes "modal p ProjectModal = Some m" "body m = Some old"
  shows "activeElement (openProjectModal pr p) =
           (case close_control m of
              None \<Rightarrow> activeElement p
            | Some b \<Rightarrow> if can_focus b then Some b else activeElement p)"
proof (cases "close_control m")
  case None
  with assms show ?thesis
    by (simp add: openProjectModal_def Let_def find_close_opened [unfolded opened_def])
next
  case (Some b)
  let ?cs = "new_controls (project_controls pr) (next_id p)"
  let ?p1 = "p\<lparr>lastFocused := activeElement p,
               modal := (modal p)(ProjectModal \<mapsto> opened m ?cs),
               next_id := next_id p + length ?cs,
               timers := timers p @ [ProjectModal], overflow := ''hidden''\<rparr>"
  have "takes_focus ?p1 b = can_focus b"
    by (rule close_control_takes_focus [OF Some, of _ ProjectModal]) simp
  then show ?thesis using assms Some
    by (simp add: openProjectModal_def Let_def find_close_opened [unfolded opened_def]
        focus_def opened_def)
qed

lemma activeElement_openBlogModal:
  assumes "modal p BlogModal = Some m" "body m = Some old"
    "find (\<lambda>x. post_id x = i) (blogs p) = Some b0"
  shows "activeElement (openBlogModal i p) =
           (case close_control m of
              None \<Rightarrow> activeElement p
            | Some b \<Rightarrow> if can_focus b then Some b else activeElement p)"
proof (cases "close_control m")
  case None
  with assms show ?thesis
    by (simp add: openBlogModal_def Let_def find_close_opened [unfolded opened_def])
next
  case (Some b)
  let ?cs = "new_controls (blog_controls (isAdmin p)) (next_id p)"
  let ?p1 = "p\<lparr>currentBlogId := Some i, lastFocused := activeElement p,
               modal := (modal p)(BlogModal \<mapsto> opened m ?cs),
               next_id := next_id p + length ?cs,
               timers := timers p @ [BlogModal], overflow := ''hidden''\<rparr>"
  have "takes_focus ?p1 b = can_focus b"
    by (rule close_control_takes_focus [OF Some, of _ BlogModal]) simp
  then show ?thesis using assms Some
    by (simp add: openBlogModal_def Let_def find_close_opened [unfolded opened_def]
        focus_def opened_def)
qed

lemma lastFocused_openProjectModal:
  assumes "modal p ProjectModal = Some m" "body m = Some old"
  shows "lastFocused (openProjectModal pr p) = activeElement p"
  using assms by (simp add: openProjectModal_def Let_def split: option.splits)

lemma lastFocused_openBlogModal:
  assumes "modal p BlogModal = Some m" "body m = Some old"
    "find (\<lambda>x. post_id x = i) (blogs p) = Some b0"
  shows "lastFocused (openBlogModal i p) = activeElement p"
  using assms by (simp add: openBlogModal_def Let_def split: option.splits)

lemma modal_openProjectModal:
  assumes "modal p ProjectModal = Some m" "body m = Some old"
  shows "modal (openProjectModal pr p) =
     (modal p)(ProjectModal \<mapsto> trapFocus (opened m (new_controls (project_controls pr) (next_id p))))"
  using assms by (auto simp: openProjectModal_def Let_def opened_def fun_eq_iff split: option.splits)

lemma modal_openBlogModal:
  assumes "modal p BlogModal = Some m" "body m = Some old"
    "find (\<lambda>x. post_id x = i) (blogs p) = Some b0"
  shows "modal (openBlogModal i p) =
     (modal p)(BlogModal \<mapsto> trapFocus (opened m (new_controls (blog_controls (isAdmin p)) (next_id p))))"
  using assms by (auto simp: openBlogModal_def Let_def opened_def fun_eq_iff split: option.splits)

lemma is_open_openProjectModal:
  "is_open (openProjectModal pr p) s \<Longrightarrow> s = ProjectModal \<or> is_open p s"
  by (auto simp: openProjectModal_def is_open_def Let_def split: option.splits if_splits)

lemma is_open_openBlogModal:
  "is_open (openBlogModal i p) s \<Longrightarrow> s = BlogModal \<or> is_open p s"
  by (auto simp: openBlogModal_def is_open_def Let_def split: option.splits if_splits)

subsection \<open>Listeners\<close>

lemma run_listeners_other_key: "key e \<noteq> ''Tab'' \<Longrightarrow> run_listeners hs e p = (0, p)"
  by (induction hs) (simp_all add: keyHandler_def)

lemma keydown_escape: "snd (keydown escape p) = document_keydown escape p"
  by (simp add: keydown_def container_keydown_def escape_def run_listeners_other_key Let_def
      split: option.splits)




lemma escape_both:
  "is_open p BlogModal \<Longrightarrow> is_open p ProjectModal \<Longrightarrow>
   document_keydown escape p = closeBlogModal (closeProjectModal p)"
  by (simp add: document_keydown_def escape_def is_open_closeProjectModal)



lemma descendants_trapFocus [simp]: "descendants (trapFocus m) = descendants m"
  by (simp add: trapFocus_def descendants_def Let_def)

lemma rendered_trapFocus [simp]: "rendered (trapFocus m) = rendered m"
  by (simp add: trapFocus_def rendered_def Let_def)


lemma takes_focus_trapFocus [simp]:
  "takes_focus (update_modal s trapFocus p) = takes_focus p"
  by (cases s) (auto simp: takes_focus_def shown_inside_def fun_eq_iff split: option.splits)



lemma is_open_document_keydown: "is_open (document_keydown e p) s \<Longrightarrow> is_open p s"
  by (auto simp: document_keydown_def Let_def is_open_closeProjectModal is_open_closeBlogModal
      split: if_splits)

lemma is_open_click: "is_open (click t p) s \<Longrightarrow> is_open p s"
  by (auto simp: click_def click_close_button_def click_project_backdrop_def
      click_blog_backdrop_def is_open_closeProjectModal is_open_closeBlogModal
      split: if_splits option.splits)

lemma is_open_timer_fires: "is_open (timer_fires p) s = is_open p s"
  by (auto simp: timer_fires_def is_open_def split: list.splits option.splits)

lemma step_keeps_one_open:
  assumes "at_most_one_open p" and "card_allowed e p"
  shows "at_most_one_open (step e p)"
proof (cases e)
  case (ProjectCard pr)
  with assms(2) show ?thesis
    unfolding at_most_one_open_def by (auto dest: is_open_openProjectModal)
next
  case (BlogCard i)
  with assms(2) show ?thesis
    unfolding at_most_one_open_def by (auto dest: is_open_openBlogModal)
next
  case EscapeKey
  with assms(1) show ?thesis
    unfolding at_most_one_open_def by (auto simp: keydown_escape dest: is_open_document_keydown)
next
  case (Click t)
  with assms(1) show ?thesis
    unfolding at_most_one_open_def by (auto dest: is_open_click)
next
  case TimerFires
  with assms(1) show ?thesis
    unfolding at_most_one_open_def by (simp add: is_open_timer_fires)
qed

subsection \<open>Numbers, likes and search\<close>

lemma ulp_small: "x < 9007199254740992 \<Longrightarrow> ulp x = 1"
  by (subst ulp.simps) simp

declare ulp.simps [simp del]

lemma round_even_one [simp]: "round_even x 1 = x"
  by (simp add: round_even_def)

lemma to_double_exact: "\<bar>x\<bar> < 9007199254740992 \<Longrightarrow> to_double x = x"
  by (simp add: to_double_def ulp_small)

lemma to_double_two_53 [simp]:
  "to_double 9007199254740992 = 9007199254740992"
  "to_double (- 9007199254740992) = - 9007199254740992"
  by code_simp+

lemma number_add_back:
  assumes "isSafeInteger n" "d = 1 \<or> d = - 1"
  shows "number_add (number_add n d) (- d) = n"
proof -
  from assms have "\<bar>n + d\<bar> < 9007199254740992 \<or> n + d = 9007199254740992 \<or> n + d = - 9007199254740992"
    by (auto simp: isSafeInteger_def)
  then have "to_double (n + d) = n + d"
    by (auto simp: to_double_exact)
  moreover from assms(1) have "to_double n = n"
    by (simp add: isSafeInteger_def to_double_exact)
  ultimately show ?thesis by (simp add: number_add_def)
qed

lemma post_id_toggle_like [simp]: "post_id (toggle_like p) = post_id p"
  by (simp add: toggle_like_def Let_def)

lemma likes_count_toggle_twice:
  "isSafeInteger (likes_count p) \<Longrightarrow> likes_count (toggle_like (toggle_like p)) = likes_count p"
  using number_add_back [of "likes_count p" 1] number_add_back [of "likes_count p" "- 1"]
  by (simp add: toggle_like_def likes_count_def Let_def or_zero_def truthy_flag_def
      split: option.splits)

lemma liked_flag_toggle_twice [simp]: "liked_flag (toggle_like (toggle_like p)) = liked_flag p"
  by (simp add: toggle_like_def liked_flag_def Let_def truthy_flag_def split: option.splits)

lemma toggle_twice_defined:
  assumes "likes p \<noteq> None" "liked p \<noteq> None" "isSafeInteger (likes_count p)"
  shows "toggle_like (toggle_like p) = p"
proof -
  from assms obtain n b where nb: "likes p = Some n" "liked p = Some b" by auto
  with assms(3) have "isSafeInteger n" by (simp add: likes_count_def or_zero_def)
  from number_add_back [OF this, of 1] number_add_back [OF this, of "- 1"] nb
  show ?thesis
    by (cases b) (simp_all add: toggle_like_def Let_def or_zero_def truthy_flag_def)
qed

lemma like_first_absent: "find (\<lambda>x. post_id x = i) xs = None \<Longrightarrow> like_first i xs = xs"
  by (induction xs) (auto split: if_splits)

lemma count_like_first_twice:
  "\<forall>p \<in> set xs. post_id p = i \<longrightarrow> isSafeInteger (likes_count p) \<Longrightarrow>
   map likes_count (like_first i (like_first i xs)) = map likes_count xs"
  by (induction xs) (auto simp: likes_count_toggle_twice)

lemma flag_like_first_twice: "map liked_flag (like_first i (like_first i xs)) = map liked_flag xs"
  by (induction xs) auto

lemma exact_like_first_twice:
  "\<forall>p \<in> set xs. likes p \<noteq> None \<and> liked p \<noteq> None
       \<and> (post_id p = i \<longrightarrow> isSafeInteger (likes_count p)) \<Longrightarrow>
   like_first i (like_first i xs) = xs"
  by (induction xs) (auto simp: toggle_twice_defined)

lemma items_likePost: "items (likePost i s) = like_first i (items s)"
  by (simp add: likePost_def Let_def like_first_absent split: option.splits)

lemma items_likeBlog: "items (likeBlog i s) = like_first i (items s)"
  by (simp add: likeBlog_def Let_def like_first_absent split: option.splits)

lemma includes_str_iff: "includes_str s q \<longleftrightarrow> is_substring q s"
  unfolding is_substring_def
  by (induction s) (auto simp: prefix_def Cons_eq_append_conv)

section \<open>The properties\<close>

subsection \<open>One open surface at a time\<close>

text \<open>
  Claim C1 says that in every state that user events can reach, at most one of the two
  surfaces is open, and that activating a blog card while the project modal is open does
  not leave both open. No open function looks at the other surface: on the example page,
  a project card and then a blog card leave both containers with \<open>aria-hidden\<close> set to
  \<open>false\<close>, and so do a blog card and then a project card.
\<close>

theorem both_surfaces_open_after_two_cards:
  "at_most_one_open example_page
   \<and> at_most_one_open (run [ProjectCard (hd demoProjects)] example_page)
   \<and> \<not> at_most_one_open (run [ProjectCard (hd demoProjects), BlogCard 1] example_page)
   \<and> at_most_one_open (run [BlogCard 1] example_page)
   \<and> \<not> at_most_one_open (run [BlogCard 1, ProjectCard (hd demoProjects)] example_page)"
  by code_simp

text \<open>
  Claim C1, as the code has it: from a state with at most one open surface, every state
  reached by a sequence of events (card activations, the escape key, clicks on a backdrop,
  a close button or elsewhere, timers) in which each card is activated while the other
  surface is not open has at most one open surface.
\<close>

theorem one_open_while_other_closed:
  "at_most_one_open p \<Longrightarrow> cards_when_other_closed es p \<Longrightarrow>
   at_most_one_open (run (take n es) p)"
proof (induction es arbitrary: p n)
  case Nil
  then show ?case by simp
next
  case (Cons e es)
  show ?case
  proof (cases n)
    case 0
    with Cons.prems show ?thesis by simp
  next
    case (Suc k)
    from Cons.prems have "at_most_one_open (step e p)" "cards_when_other_closed es (step e p)"
      by (simp_all add: step_keeps_one_open)
    then have "at_most_one_open (run (take k es) (step e p))" by (rule Cons.IH)
    with Suc show ?thesis by simp
  qed
qed

text \<open>
  On the example page: a project card, a click on the close button of the project modal, a
  blog card, the same blog card again while the blog modal is open, a click on the blog
  backdrop, a timer, a project card, the escape key. After the fourth event the blog modal
  is the one open surface.
\<close>

theorem one_open_while_other_closed_witness:
  "at_most_one_open example_page \<and> cards_when_other_closed demo_events example_page
   \<and> at_most_one_open (run (take 4 demo_events) example_page)
   \<and> is_open (run (take 4 demo_events) example_page) BlogModal"
proof -
  have a: "at_most_one_open example_page" by code_simp
  have b: "cards_when_other_closed demo_events example_page" by code_simp
  have c: "is_open (run (take 4 demo_events) example_page) BlogModal" by code_simp
  from one_open_while_other_closed [OF a b, of 4] a b c show ?thesis by simp
qed

subsection \<open>Focus returns on close\<close>

text \<open>
  Claim C2 says that after open and close on a surface the focus is back on the element
  that had it before the open call, provided that element is still attached. The close
  function hides the container before it calls \<open>focus\<close>, and an element inside a hidden
  container does not take the focus. On the page whose project dialog has the button 5
  after its body: the dialog is open with the focus on button 5, it is opened again
  (the focus goes to the close button) and closed; button 5 is still attached, and the
  focus is not on it.
\<close>

theorem focus_not_restored_to_hidden_element:
  "activeElement form_page_open = Some (control 5)
   \<and> attached (closeProjectModal (openProjectModal (hd demoProjects) form_page_open)) (control 5)
   \<and> activeElement (closeProjectModal (openProjectModal (hd demoProjects) form_page_open))
       = Some (close_button 1)
   \<and> \<not> spec_focus_restored (activeElement form_page_open)
         (openProjectModal (hd demoProjects) form_page_open)
         (closeProjectModal (openProjectModal (hd demoProjects) form_page_open))"
  by code_simp

text \<open>
  Claim C2, as the code has it: when a surface is opened and then closed, the focus is
  back on the element that had it just before the open call if that element can take the
  focus when close calls \<open>focus\<close> (it is attached, not disabled, and not inside a hidden
  dialog, the one being closed included); if it cannot (or no element had the focus), the
  close leaves the focus where it was. This holds for the project modal whenever its
  container and body exist, and for the blog modal whenever its container, its body and
  the blog exist (the cases in which the open call does not return at once).
\<close>

theorem focus_restored_by_close:
  "(modal p ProjectModal = Some m \<and> body m \<noteq> None \<longrightarrow>
      focus_restored (activeElement p) (openProjectModal pr p)
        (closeProjectModal (openProjectModal pr p)))
   \<and> (modal p BlogModal = Some m' \<and> body m' \<noteq> None \<and> find (\<lambda>x. post_id x = i) (blogs p) \<noteq> None \<longrightarrow>
      focus_restored (activeElement p) (openBlogModal i p)
        (closeBlogModal (openBlogModal i p)))"
proof (intro conjI impI)
  assume "modal p ProjectModal = Some m \<and> body m \<noteq> None"
  then obtain old where m: "modal p ProjectModal = Some m" "body m = Some old" by auto
  let ?q = "openProjectModal pr p"
  have pres: "modal ?q ProjectModal \<noteq> None" by (simp add: modal_openProjectModal [OF m])
  show "focus_restored (activeElement p) ?q (closeProjectModal ?q)"
    using pres
    by (auto simp: focus_restored_def activeElement_closeProjectModal
        takes_focus_closeProjectModal restored_def lastFocused_openProjectModal [OF m]
        split: option.splits)
next
  assume "modal p BlogModal = Some m' \<and> body m' \<noteq> None \<and> find (\<lambda>x. post_id x = i) (blogs p) \<noteq> None"
  then obtain old b0 where m: "modal p BlogModal = Some m'" "body m' = Some old"
    "find (\<lambda>x. post_id x = i) (blogs p) = Some b0" by auto
  let ?q = "openBlogModal i p"
  have pres: "modal ?q BlogModal \<noteq> None" by (simp add: modal_openBlogModal [OF m])
  show "focus_restored (activeElement p) ?q (closeBlogModal ?q)"
    using pres
    by (auto simp: focus_restored_def activeElement_closeBlogModal
        takes_focus_closeBlogModal restored_def lastFocused_openBlogModal [OF m]
        split: option.splits)
qed

text \<open>On the example page the focus is on the project card 10 before and after.\<close>

theorem focus_restored_by_close_witness:
  "(modal example_page ProjectModal = Some (example_surface 1) \<and> body (example_surface 1) \<noteq> None)
   \<and> (modal example_page BlogModal = Some (example_surface 2) \<and> body (example_surface 2) \<noteq> None
        \<and> find (\<lambda>x. post_id x = 1) (blogs example_page) \<noteq> None)
   \<and> activeElement (openProjectModal (hd demoProjects) example_page) = Some (close_button 1)
   \<and> activeElement (closeProjectModal (openProjectModal (hd demoProjects) example_page))
       = Some (control 10)
   \<and> focus_restored (Some (control 10)) (openProjectModal (hd demoProjects) example_page)
        (closeProjectModal (openProjectModal (hd demoProjects) example_page))
   \<and> focus_restored (Some (control 10)) (openBlogModal 1 example_page)
        (closeBlogModal (openBlogModal 1 example_page))"
proof -
  have h: "modal example_page ProjectModal = Some (example_surface 1)
           \<and> body (example_surface 1) \<noteq> None"
    by code_simp
  have k: "modal example_page BlogModal = Some (example_surface 2)
           \<and> body (example_surface 2) \<noteq> None
           \<and> find (\<lambda>x. post_id x = 1) (blogs example_page) \<noteq> None"
    by code_simp
  have a: "activeElement example_page = Some (control 10)" by code_simp
  have b: "activeElement (openProjectModal (hd demoProjects) example_page) = Some (close_button 1)"
    "activeElement (closeProjectModal (openProjectModal (hd demoProjects) example_page))
       = Some (control 10)"
    by code_simp+
  from focus_restored_by_close [where p = example_page and m = "example_surface 1"
      and m' = "example_surface 2" and i = 1 and pr = "hd demoProjects"] h k a b
  show ?thesis by simp
qed

subsection \<open>The focus trap\<close>




subsection \<open>The trap listener is never removed\<close>

text \<open>
  Claim C4 says that close removes the key-down listener that open installed. The function
  \<open>trapFocus\<close> stores the remover in \<open>_removeTrap\<close>, and no function calls it: after
  open and close on the example page, the listener is still registered on the container,
  for either surface, and a second cycle on the project modal leaves two.
\<close>

theorem trap_listener_survives_close:
  "map_option trap_ids
      (modal (closeProjectModal (openProjectModal (hd demoProjects) example_page)) ProjectModal)
     = Some [(1, 101)]
   \<and> map_option trap_ids (modal (closeBlogModal (openBlogModal 1 example_page)) BlogModal)
     = Some [(2, 102)]
   \<and> map_option (length \<circ> listeners)
        (modal (closeProjectModal (openProjectModal (hd demoProjects)
           (closeProjectModal (openProjectModal (hd demoProjects) example_page)))) ProjectModal)
     = Some 2"
  by code_simp

text \<open>
  Claim C5 says that opening a surface that is open does not install a second listener, so
  that one Tab press wraps at most once. \<open>editBlog\<close> opens the blog modal again while it
  is open; the earlier listener is not removed, the container has two, and with the focus
  on the close button one press of Tab with shift runs the wrap branch of both. The same
  holds for two open calls on the project modal.
\<close>

theorem second_open_adds_second_trap:
  "map_option trap_ids (modal (openBlogModal 1 (openBlogModal 1 example_page)) BlogModal)
     = Some [(2, 102), (2, 105)]
   \<and> fst (keydown (tab True) (openBlogModal 1 (openBlogModal 1 example_page))) = 2
   \<and> map_option trap_ids
        (modal (openProjectModal (hd demoProjects) (openProjectModal (hd demoProjects) example_page))
           ProjectModal)
     = Some [(1, 101), (1, 103)]
   \<and> fst (keydown (tab True)
        (openProjectModal (hd demoProjects) (openProjectModal (hd demoProjects) example_page))) = 2"
  by code_simp

subsection \<open>Dismissal\<close>




text \<open>
  Claim C7: closing twice is closing once, for the whole state and so for what can be
  observed of it; the functions return a state on every input, as the code returns
  without throwing.
\<close>

theorem close_is_idempotent:
  "closeProjectModal (closeProjectModal p) = closeProjectModal p
   \<and> closeBlogModal (closeBlogModal p) = closeBlogModal p
   \<and> observable s (close_modal s (close_modal s p)) = observable s (close_modal s p)"
  by (cases s) (simp_all add: closeProjectModal_idem closeBlogModal_idem close_modal_def)

subsection \<open>Focus on open\<close>

text \<open>
  Claim C8 says that open moves the focus to the close control when there is one and to
  the first focusable descendant otherwise. The code is \<open>closeBtn && closeBtn.focus()\<close>
  and nothing else: on the page whose dialogs have no close control, the project modal is
  shown with the links 100 and 101, and the focus stays on the card 10.
\<close>

theorem no_fallback_to_first_focusable:
  "map_option close_control (modal bare_page ProjectModal) = Some None
   \<and> map_option (\<lambda>m. map eid (filter focusable_sel (descendants m)))
        (modal (openProjectModal (hd demoProjects) bare_page) ProjectModal) = Some [100, 101]
   \<and> activeElement (openProjectModal (hd demoProjects) bare_page) = Some (control 10)"
  by code_simp

text \<open>
  Claim C8, as the code has it: an open call that finds its container and body (and, for
  the blog modal, the blog) moves the focus to the close control of the container when
  there is one (and it is an element that can take the focus), and leaves the focus where
  it was when there is none.
\<close>

theorem open_focuses_close_control:
  "(modal p ProjectModal = Some m \<and> body m \<noteq> None \<longrightarrow>
      activeElement (openProjectModal pr p) =
        (case close_control m of
           None \<Rightarrow> activeElement p
         | Some b \<Rightarrow> if can_focus b then Some b else activeElement p))
   \<and> (modal p BlogModal = Some m' \<and> body m' \<noteq> None \<and> find (\<lambda>x. post_id x = i) (blogs p) \<noteq> None \<longrightarrow>
      activeElement (openBlogModal i p) =
        (case close_control m' of
           None \<Rightarrow> activeElement p
         | Some b \<Rightarrow> if can_focus b then Some b else activeElement p))"
  by (auto simp: activeElement_openProjectModal activeElement_openBlogModal)

theorem open_focuses_close_control_witness:
  "activeElement example_page = Some (control 10)
   \<and> activeElement (openProjectModal (hd demoProjects) example_page) = Some (close_button 1)
   \<and> activeElement (openBlogModal 1 example_page) = Some (close_button 2)"
proof -
  have h: "modal example_page ProjectModal = Some (example_surface 1)
           \<and> body (example_surface 1) \<noteq> None"
    by code_simp
  have k: "modal example_page BlogModal = Some (example_surface 2)
           \<and> body (example_surface 2) \<noteq> None
           \<and> find (\<lambda>x. post_id x = 1) (blogs example_page) \<noteq> None"
    by code_simp
  have c: "close_control (example_surface 1) = Some (close_button 1)"
    "close_control (example_surface 2) = Some (close_button 2)"
    "can_focus (close_button 1)" "can_focus (close_button 2)"
    by code_simp+
  have a: "activeElement example_page = Some (control 10)" by code_simp
  from open_focuses_close_control [where p = example_page and m = "example_surface 1"
      and m' = "example_surface 2" and i = 1 and pr = "hd demoProjects"] h k c a
  show ?thesis by simp
qed

subsection \<open>Likes\<close>

text \<open>
  Claim C9 says that liking an entry twice restores its likes count and its liked flag.
  The count is a double: at \<open>2^53\<close> the like adds 1 and the sum rounds back to \<open>2^53\<close>,
  the unlike subtracts 1 exactly, and the count is \<open>2^53 - 1\<close>.
\<close>

theorem like_round_trip_fails_at_two_53:
  "likes_count (hd (items big_posts)) = 9007199254740992
   \<and> liked_flag (hd (items big_posts)) = False
   \<and> likes_count (hd (items (likePost 3 big_posts))) = 9007199254740992
   \<and> likes_count (hd (items (likePost 3 (likePost 3 big_posts)))) = 9007199254740991"
  by code_simp

text \<open>
  Claim C9, as the code has it: liking an entry twice restores the liked flag of every
  entry as it is read (the truth value of \<open>liked\<close>), and the likes count as it is read
  (\<open>likes || 0\<close>) when the count of the entries with that id is a safe integer (at most
  \<open>2^53 - 1\<close> in magnitude); when moreover both properties of every entry are defined,
  the entries are the same as before, field for field (an entry without \<open>liked\<close>, as the
  seed posts of \<open>script.js\<close> are, has it \<open>false\<close> afterwards); and a like on an id that
  no entry has leaves the state, the stored copy included, unchanged. This holds for
  \<open>likePost\<close> and for \<open>likeBlog\<close>.
\<close>

theorem like_twice_round_trip:
  fixes s :: "post entries" and t :: "blog entries"
  shows "((\<forall>p \<in> set (items s). post_id p = i \<longrightarrow> isSafeInteger (likes_count p)) \<longrightarrow>
          map likes_count (items (likePost i (likePost i s))) = map likes_count (items s))
    \<and> map liked_flag (items (likePost i (likePost i s))) = map liked_flag (items s)
    \<and> ((\<forall>p \<in> set (items s). likes p \<noteq> None \<and> liked p \<noteq> None
            \<and> (post_id p = i \<longrightarrow> isSafeInteger (likes_count p))) \<longrightarrow>
          items (likePost i (likePost i s)) = items s)
    \<and> (find (\<lambda>x. post_id x = i) (items s) = None \<longrightarrow> likePost i s = s)
    \<and> ((\<forall>b \<in> set (items t). post_id b = j \<longrightarrow> isSafeInteger (likes_count b)) \<longrightarrow>
          map likes_count (items (likeBlog j (likeBlog j t))) = map likes_count (items t))
    \<and> map liked_flag (items (likeBlog j (likeBlog j t))) = map liked_flag (items t)
    \<and> ((\<forall>b \<in> set (items t). likes b \<noteq> None \<and> liked b \<noteq> None
            \<and> (post_id b = j \<longrightarrow> isSafeInteger (likes_count b))) \<longrightarrow>
          items (likeBlog j (likeBlog j t)) = items t)
    \<and> (find (\<lambda>x. post_id x = j) (items t) = None \<longrightarrow> likeBlog j t = t)"
proof -
  have "find (\<lambda>x. post_id x = i) (items s) = None \<longrightarrow> likePost i s = s"
    and "find (\<lambda>x. post_id x = j) (items t) = None \<longrightarrow> likeBlog j t = t"
    by (simp_all add: likePost_def likeBlog_def)
  then show ?thesis
    by (simp add: items_likePost items_likeBlog count_like_first_twice flag_like_first_twice
        exact_like_first_twice)
qed

theorem like_twice_round_trip_witness:
  "liked (hd (items seeded_posts)) = None
   \<and> liked (hd (items (likePost 1 (likePost 1 seeded_posts)))) = Some False
   \<and> map liked_flag (items (likePost 1 (likePost 1 seeded_posts))) = [False, False]
   \<and> map likes_count (items (likePost 1 (likePost 1 seeded_posts))) = [5, 0]
   \<and> items (likePost 2 (likePost 2 made_posts)) = items made_posts
   \<and> likes_count (hd (items (likePost 2 made_posts))) = 1
   \<and> find (\<lambda>x. post_id x = 7) (items made_posts) = None
   \<and> likePost 7 made_posts = made_posts
   \<and> items (likeBlog 1 (likeBlog 1 demo_blogs)) = items demo_blogs
   \<and> find (\<lambda>x. post_id x = 7) (items demo_blogs) = None
   \<and> likeBlog 7 demo_blogs = demo_blogs"
proof -
  have a: "\<forall>p \<in> set (items made_posts). likes p \<noteq> None \<and> liked p \<noteq> None
             \<and> (post_id p = 2 \<longrightarrow> isSafeInteger (likes_count p))"
    by (simp add: made_posts_def new_post_def isSafeInteger_def likes_count_def or_zero_def)
  have b: "\<forall>b \<in> set (items demo_blogs). likes b \<noteq> None \<and> liked b \<noteq> None
             \<and> (post_id b = 1 \<longrightarrow> isSafeInteger (likes_count b))"
    by (simp add: demo_blogs_def seed_blog_def isSafeInteger_def likes_count_def or_zero_def)
  have s: "\<forall>p \<in> set (items seeded_posts). post_id p = 1 \<longrightarrow> isSafeInteger (likes_count p)"
    by (simp add: seeded_posts_def seed_post_def new_post_def isSafeInteger_def likes_count_def
        or_zero_def)
  have c: "find (\<lambda>x. post_id x = 7) (items made_posts) = None"
    "find (\<lambda>x. post_id x = 7) (items demo_blogs) = None"
    by (simp_all add: made_posts_def new_post_def demo_blogs_def seed_blog_def)
  have d: "likes_count (hd (items (likePost 2 made_posts))) = 1" by code_simp
  have e: "liked (hd (items seeded_posts)) = None"
    "liked (hd (items (likePost 1 (likePost 1 seeded_posts)))) = Some False"
    "map liked_flag (items seeded_posts) = [False, False]"
    "map likes_count (items seeded_posts) = [5, 0]"
    by code_simp+
  from like_twice_round_trip [of made_posts 2 demo_blogs 1]
    like_twice_round_trip [of made_posts 7 demo_blogs 7]
    like_twice_round_trip [of seeded_posts 1 demo_blogs 1] a b s c d e
  show ?thesis by simp
qed

subsection \<open>Search\<close>

text \<open>
  Claim C10 says that after the search handler has run, the filtered list holds the
  projects of the pool whose title, description or some tag contains the lowercased,
  trimmed query. The code lowercases the title, the description and each tag before it
  looks for the query: for the query \<open>demo\<close> it finds the project titled
  \<open>Demo Shop\<close>, where no text of the project contains \<open>demo\<close> as it is written.
\<close>

theorem search_is_case_insensitive:
  "filteredProjects (searchInput ascii_lower ascii_trim (Some ''demo'') demo_gallery) = demoProjects
   \<and> spec_search ascii_lower ascii_trim (Some ''demo'') demo_gallery = []"
  by code_simp

text \<open>
  Claim C10, as the code has it: the filtered list is, in the order of the pool, the
  projects of the pool (all projects when the filter is \<open>all\<close>, otherwise those whose
  tags include the filter) whose lowercased title, lowercased description or some
  lowercased tag contains the lowercased, trimmed query; the projects and the filter stay
  as they are. This holds whatever the methods \<open>toLowerCase\<close> and \<open>trim\<close> do.
\<close>

theorem search_filters_pool:
  "filteredProjects (searchInput toLowerCase trim v g) =
     (let q = trim (toLowerCase (or_empty v))
      in filter (\<lambda>p. is_substring q (toLowerCase (or_empty (title p)))
                    \<or> is_substring q (toLowerCase (or_empty (description p)))
                    \<or> (\<exists>t \<in> set (or_nil (tags p)). is_substring q (toLowerCase t)))
           (if currentFilter g = ''all'' then projects g
            else filter (\<lambda>p. currentFilter g \<in> set (or_nil (tags p))) (projects g)))
   \<and> projects (searchInput toLowerCase trim v g) = projects g
   \<and> currentFilter (searchInput toLowerCase trim v g) = currentFilter g"
  by (simp add: searchInput_def Let_def matches_def filter_pool_def has_tag_def includes_str_iff
      list_ex_iff cong: filter_cong)

end
